theory Spec2Isabelle
  imports Main "HOL-Library.Word"
begin

section \<open>Scalar types of the Go source\<close>

text \<open>
  \<^verbatim>\<open>int64\<close> is a 64-bit two's complement integer: \<open>+\<close> and \<open>-\<close> wrap around, and
  comparisons read the value with \<open>sint\<close>. Go's \<^verbatim>\<open>time.Duration\<close> is declared as an
  \<^verbatim>\<open>int64\<close> count of nanoseconds.
\<close>

type_synonym int64 = "64 word"

type_synonym time_Duration = "64 word"

text \<open>
  Modelled from the spec: \<^verbatim>\<open>time.Time\<close> belongs to Go's standard library and is not
  among the sources. The spec calls the field an absolute wall-clock instant whose zero
  value means "unset", and counts in nanoseconds. An instant is modelled as the number
  of nanoseconds elapsed since the zero value of the type (January 1, year 1, 00:00:00
  UTC); instants before it are negative. \<^verbatim>\<open>IsZero\<close>, \<^verbatim>\<open>Before\<close> and \<^verbatim>\<open>Add\<close> are
  the three methods the source calls: \<^verbatim>\<open>IsZero\<close> tests for the zero value,
  \<^verbatim>\<open>Before\<close> is the strict order of instants, and \<^verbatim>\<open>Add\<close> moves an instant by a
  signed number of nanoseconds. The location and the monotonic reading play no part in
  them, and the bounds of the library's representation, some 292 billion years away
  from the zero instant, are left out.
\<close>

type_synonym time_Time = int

definition time_IsZero :: "time_Time \<Rightarrow> bool" where
  "time_IsZero t \<longleftrightarrow> t = 0"

definition time_Before :: "time_Time \<Rightarrow> time_Time \<Rightarrow> bool" where
  "time_Before t u \<longleftrightarrow> t < u"

definition time_Add :: "time_Time \<Rightarrow> time_Duration \<Rightarrow> time_Time" where
  "time_Add t d = t + sint d"

section \<open>The data model\<close>

record ExpiresAt =
  Time :: time_Time
  Height :: int64

record Duration =
  Clock :: time_Duration
  Block :: int64

text \<open>
  Modelled from the spec: \<^verbatim>\<open>ErrInvalidDuration\<close> is declared in a file of the package
  that is not among the sources. The spec describes a single error kind, InvalidDuration,
  carrying a human-readable reason string. A Go \<^verbatim>\<open>error\<close> result is an
  \<open>error option\<close>, \<open>None\<close> standing for \<^verbatim>\<open>nil\<close>.
\<close>

datatype error = ErrInvalidDuration string

text \<open>The composite literal \<^verbatim>\<open>ExpiresAt{}\<close>: every field at its zero value.\<close>

definition ExpiresAt_zero :: ExpiresAt where
  "ExpiresAt_zero = \<lparr>Time = 0, Height = 0\<rparr>"

definition ExpiresAtTime :: "time_Time \<Rightarrow> ExpiresAt" where
  "ExpiresAtTime t = \<lparr>Time = t, Height = 0\<rparr>"

definition ExpiresAtHeight :: "int64 \<Rightarrow> ExpiresAt" where
  "ExpiresAtHeight h = \<lparr>Time = 0, Height = h\<rparr>"

definition ClockDuration :: "time_Duration \<Rightarrow> Duration" where
  "ClockDuration d = \<lparr>Clock = d, Block = 0\<rparr>"

definition BlockDuration :: "int64 \<Rightarrow> Duration" where
  "BlockDuration h = \<lparr>Clock = 0, Block = h\<rparr>"

section \<open>Operations on an expiration point\<close>

definition ExpiresAt_ValidateBasic :: "ExpiresAt \<Rightarrow> error option" where
  "ExpiresAt_ValidateBasic e =
     (if \<not> time_IsZero (Time e) \<and> Height e \<noteq> 0
        then Some (ErrInvalidDuration ''both time and height are set'')
      else if sint (Height e) < 0
        then Some (ErrInvalidDuration ''negative height'')
      else None)"

definition IsZero :: "ExpiresAt \<Rightarrow> bool" where
  "IsZero e \<longleftrightarrow> time_IsZero (Time e) \<and> Height e = 0"

definition FastForward :: "ExpiresAt \<Rightarrow> time_Time \<Rightarrow> int64 \<Rightarrow> ExpiresAt" where
  "FastForward e t h =
     (if \<not> time_IsZero (Time e) then ExpiresAtTime t else ExpiresAtHeight h)"

definition IsExpired :: "ExpiresAt \<Rightarrow> time_Time \<Rightarrow> int64 \<Rightarrow> bool" where
  "IsExpired e t h =
     (if \<not> time_IsZero (Time e) \<and> \<not> time_Before t (Time e) then True
      else Height e \<noteq> 0 \<and> sint (Height e) \<le> sint h)"

definition IsCompatible :: "ExpiresAt \<Rightarrow> Duration \<Rightarrow> bool" where
  "IsCompatible e p =
     (if \<not> time_IsZero (Time e) then 0 < sint (Clock p) else 0 < sint (Block p))"

text \<open>
  \<^verbatim>\<open>Step\<close> returns a pair, as the Go function does: the point and the error, the
  incompatible case returning \<^verbatim>\<open>ExpiresAt{}\<close> beside the error.
\<close>

definition Step :: "ExpiresAt \<Rightarrow> Duration \<Rightarrow> ExpiresAt \<times> error option" where
  "Step e p =
     (if \<not> IsCompatible e p
        then (ExpiresAt_zero,
              Some (ErrInvalidDuration ''expires_at and Duration have different units''))
      else if \<not> time_IsZero (Time e)
        then (e\<lparr>Time := time_Add (Time e) (Clock p)\<rparr>, None)
      else (e\<lparr>Height := Height e + Block p\<rparr>, None))"

text \<open>A panic is a result of its own: \<open>Inl\<close> carries the value passed to \<^verbatim>\<open>panic\<close>.\<close>

datatype panic = Panic error

definition MustStep :: "ExpiresAt \<Rightarrow> Duration \<Rightarrow> panic + ExpiresAt" where
  "MustStep e p =
     (case Step e p of
        (res, Some err) \<Rightarrow> Inl (Panic err)
      | (res, None) \<Rightarrow> Inr res)"

definition PrepareForExport :: "ExpiresAt \<Rightarrow> time_Time \<Rightarrow> int64 \<Rightarrow> ExpiresAt" where
  "PrepareForExport e dumpTime dumpHeight =
     (if Height e \<noteq> 0 then e\<lparr>Height := Height e - dumpHeight\<rparr> else e)"

section \<open>Operations on a duration\<close>

definition Duration_ValidateBasic :: "Duration \<Rightarrow> error option" where
  "Duration_ValidateBasic p =
     (if Block p = 0 \<and> Clock p = 0
        then Some (ErrInvalidDuration ''neither time and height are set'')
      else if Block p \<noteq> 0 \<and> Clock p \<noteq> 0
        then Some (ErrInvalidDuration ''both time and height are set'')
      else if sint (Block p) < 0
        then Some (ErrInvalidDuration ''negative block step'')
      else if sint (Clock p) < 0
        then Some (ErrInvalidDuration ''negative clock step'')
      else None)"

section \<open>Vocabulary of the specification\<close>

text \<open>
  A time-point has the time field set and the height at zero; a step-point has a
  non-zero height and the time field at its zero value. The data-model invariants: at
  most one of the two fields is non-zero, and the height is never negative.
\<close>

definition is_time_point :: "ExpiresAt \<Rightarrow> bool" where
  "is_time_point e \<longleftrightarrow> \<not> time_IsZero (Time e) \<and> Height e = 0"

definition is_step_point :: "ExpiresAt \<Rightarrow> bool" where
  "is_step_point e \<longleftrightarrow> time_IsZero (Time e) \<and> Height e \<noteq> 0"

definition at_most_one_set :: "ExpiresAt \<Rightarrow> bool" where
  "at_most_one_set e \<longleftrightarrow> time_IsZero (Time e) \<or> Height e = 0"

definition ExpiresAt_inv :: "ExpiresAt \<Rightarrow> bool" where
  "ExpiresAt_inv e \<longleftrightarrow> at_most_one_set e \<and> 0 \<le> sint (Height e)"

section \<open>Signed reading of 64-bit words\<close>

lemma sint64_eq_0: "sint (w :: 64 word) = 0 \<longleftrightarrow> w = 0"
  by (rule signed_eq_0_iff)

lemma sint64_pos: "0 < sint (w :: 64 word) \<longleftrightarrow> w \<noteq> 0 \<and> \<not> sint w < 0"
  using sint64_eq_0 [of w] by auto

lemma sint64_bounds: "- (2 ^ 63) \<le> sint (w :: 64 word) \<and> sint w < 2 ^ 63"
  using sint_ge [of w] sint_lt [of w] by simp

lemma sint64_add:
  "- (2 ^ 63) \<le> sint a + sint b \<Longrightarrow> sint a + sint b < 2 ^ 63 \<Longrightarrow>
     sint (a + b :: 64 word) = sint a + sint b"
  by (simp add: sint_word_ariths signed_take_bit_int_eq_self)

lemma sint64_sub:
  "- (2 ^ 63) \<le> sint a - sint b \<Longrightarrow> sint a - sint b < 2 ^ 63 \<Longrightarrow>
     sint (a - b :: 64 word) = sint a - sint b"
  by (simp add: sint_word_ariths signed_take_bit_int_eq_self)

lemma sint64_add_overflow:
  "2 ^ 63 \<le> sint a + sint b \<Longrightarrow> sint (a + b :: 64 word) = sint a + sint b - 2 ^ 64"
proof -
  assume ov: "2 ^ 63 \<le> sint a + sint b"
  define k where "k = sint a + sint b"
  have hi: "k < 2 ^ 64"
    using sint_lt [of a] sint_lt [of b] by (simp add: k_def)
  have lo: "2 ^ 63 \<le> k"
    using ov by (simp add: k_def)
  have "(k + 2 ^ 63) mod 2 ^ 64 = (k + 2 ^ 63 - 2 ^ 64) mod 2 ^ 64"
    by (rule minus_mod_self2 [symmetric])
  also have "\<dots> = k + 2 ^ 63 - 2 ^ 64"
    using lo hi by (intro mod_pos_pos_trivial) simp_all
  finally have "signed_take_bit 63 k = k - 2 ^ 64"
    by (simp add: signed_take_bit_eq_take_bit_shift take_bit_eq_mod)
  then show ?thesis
    by (simp add: sint_word_ariths k_def)
qed

section \<open>Preservation lemmas\<close>

lemma FastForward_inv: "0 \<le> sint h \<Longrightarrow> ExpiresAt_inv (FastForward e t h)"
  by (simp add: FastForward_def ExpiresAtTime_def ExpiresAtHeight_def ExpiresAt_inv_def
      at_most_one_set_def time_IsZero_def)

lemma Step_at_most_one_set:
  "at_most_one_set e \<Longrightarrow> at_most_one_set (fst (Step e d))"
  by (auto simp add: Step_def ExpiresAt_zero_def at_most_one_set_def time_IsZero_def)

lemma Duration_valid_cases:
  assumes "Duration_ValidateBasic d = None"
  shows "(0 < sint (Clock d) \<and> Block d = 0) \<or> (Clock d = 0 \<and> 0 < sint (Block d))"
  using assms
  unfolding Duration_ValidateBasic_def sint64_pos [of "Clock d"] sint64_pos [of "Block d"]
  by (auto split: if_splits)

lemma Step_inv_iff:
  assumes inv: "ExpiresAt_inv e" and valid: "Duration_ValidateBasic d = None"
  shows "ExpiresAt_inv (fst (Step e d)) \<longleftrightarrow> sint (Height e) + sint (Block d) < 2 ^ 63"
proof (cases "IsCompatible e d \<and> time_IsZero (Time e)")
  case True
  then have pos: "0 < sint (Block d)"
    by (simp add: IsCompatible_def)
  have nonneg: "0 \<le> sint (Height e)"
    using inv by (simp add: ExpiresAt_inv_def)
  have res: "fst (Step e d) = e\<lparr>Height := Height e + Block d\<rparr>"
    using True by (simp add: Step_def)
  show ?thesis
  proof (cases "sint (Height e) + sint (Block d) < 2 ^ 63")
    case True
    then have "sint (Height e + Block d) = sint (Height e) + sint (Block d)"
      using pos nonneg by (intro sint64_add) simp_all
    then show ?thesis
      using True pos nonneg \<open>IsCompatible e d \<and> time_IsZero (Time e)\<close>
      by (simp add: res ExpiresAt_inv_def at_most_one_set_def)
  next
    case False
    then have "sint (Height e + Block d) = sint (Height e) + sint (Block d) - 2 ^ 64"
      by (intro sint64_add_overflow) simp
    moreover have "sint (Height e) + sint (Block d) < 2 ^ 64"
      using sint64_bounds [of "Height e"] sint64_bounds [of "Block d"] by simp
    ultimately have "sint (Height e + Block d) < 0"
      by simp
    then show ?thesis
      using False by (simp add: res ExpiresAt_inv_def)
  qed
next
  case False
  have small: "sint (Height e) + sint (Block d) < 2 ^ 63"
  proof (cases "time_IsZero (Time e)")
    case True
    with False have "\<not> 0 < sint (Block d)"
      by (simp add: IsCompatible_def)
    with Duration_valid_cases [OF valid] have "Block d = 0"
      by auto
    then show ?thesis
      using sint64_bounds [of "Height e"] by simp
  next
    case False
    with inv have "Height e = 0"
      by (simp add: ExpiresAt_inv_def at_most_one_set_def)
    then show ?thesis
      using sint64_bounds [of "Block d"] by simp
  qed
  have "ExpiresAt_inv (fst (Step e d))"
    using False inv
    by (auto simp add: Step_def ExpiresAt_zero_def ExpiresAt_inv_def at_most_one_set_def
        time_IsZero_def)
  with small show ?thesis
    by simp
qed

lemma PrepareForExport_at_most_one_set:
  "ExpiresAt_inv e \<Longrightarrow> at_most_one_set (PrepareForExport e dt dh)"
  by (auto simp add: PrepareForExport_def ExpiresAt_inv_def at_most_one_set_def)

lemma PrepareForExport_inv_iff:
  assumes inv: "ExpiresAt_inv e" and dh: "0 \<le> sint dh"
  shows "ExpiresAt_inv (PrepareForExport e dt dh) \<longleftrightarrow>
           Height e = 0 \<or> sint dh \<le> sint (Height e)"
proof (cases "Height e = 0")
  case True
  then show ?thesis
    using inv by (simp add: PrepareForExport_def)
next
  case False
  have nonneg: "0 \<le> sint (Height e)"
    using inv by (simp add: ExpiresAt_inv_def)
  have "sint (Height e - dh) = sint (Height e) - sint dh"
    using nonneg dh sint64_bounds [of "Height e"] sint64_bounds [of dh]
    by (intro sint64_sub) simp_all
  then show ?thesis
    using False inv
    by (auto simp add: PrepareForExport_def ExpiresAt_inv_def at_most_one_set_def)
qed

section \<open>Validation\<close>

text \<open>
  C6. \<^verbatim>\<open>Duration.ValidateBasic\<close> returns an error exactly when neither field is set,
  or both are set, or either field is negative; equivalently, it accepts exactly the
  durations with one field positive and the other zero.
\<close>

theorem Duration_ValidateBasic_iff:
  "(Duration_ValidateBasic d \<noteq> None \<longleftrightarrow>
      (Block d = 0 \<and> Clock d = 0) \<or> (Block d \<noteq> 0 \<and> Clock d \<noteq> 0)
      \<or> sint (Block d) < 0 \<or> sint (Clock d) < 0)
   \<and> (Duration_ValidateBasic d = None \<longleftrightarrow>
      (0 < sint (Clock d) \<and> Block d = 0) \<or> (Clock d = 0 \<and> 0 < sint (Block d)))"
  unfolding Duration_ValidateBasic_def sint64_pos [of "Clock d"] sint64_pos [of "Block d"]
  by auto

theorem Duration_ValidateBasic_iff_witness:
  "Duration_ValidateBasic (ClockDuration 3600000000000) = None
   \<and> Duration_ValidateBasic (BlockDuration 10) = None
   \<and> Duration_ValidateBasic \<lparr>Clock = 0, Block = 0\<rparr> \<noteq> None
   \<and> Duration_ValidateBasic \<lparr>Clock = 5, Block = 5\<rparr> \<noteq> None
   \<and> Duration_ValidateBasic (BlockDuration (- 1)) \<noteq> None
   \<and> Duration_ValidateBasic (ClockDuration (- 1)) \<noteq> None"
  using Duration_ValidateBasic_iff [of "ClockDuration 3600000000000"]
    Duration_ValidateBasic_iff [of "BlockDuration 10"]
    Duration_ValidateBasic_iff [of "\<lparr>Clock = 0, Block = 0\<rparr>"]
    Duration_ValidateBasic_iff [of "\<lparr>Clock = 5, Block = 5\<rparr>"]
    Duration_ValidateBasic_iff [of "BlockDuration (- 1)"]
    Duration_ValidateBasic_iff [of "ClockDuration (- 1)"]
  by (simp add: ClockDuration_def BlockDuration_def)

text \<open>
  C5. \<^verbatim>\<open>ExpiresAt.ValidateBasic\<close> returns an error exactly when both fields are
  non-zero at once or the height is negative. It accepts the all-zero value, the point
  built by \<^verbatim>\<open>ExpiresAtTime\<close> from any time, and the point built by
  \<^verbatim>\<open>ExpiresAtHeight\<close> from any height that is not negative.
\<close>

theorem ExpiresAt_ValidateBasic_iff:
  "(ExpiresAt_ValidateBasic e \<noteq> None \<longleftrightarrow>
      (\<not> time_IsZero (Time e) \<and> Height e \<noteq> 0) \<or> sint (Height e) < 0)
   \<and> ExpiresAt_ValidateBasic ExpiresAt_zero = None
   \<and> ExpiresAt_ValidateBasic (ExpiresAtTime t) = None
   \<and> (0 \<le> sint h \<longrightarrow> ExpiresAt_ValidateBasic (ExpiresAtHeight h) = None)"
  by (simp add: ExpiresAt_ValidateBasic_def ExpiresAt_zero_def ExpiresAtTime_def
      ExpiresAtHeight_def time_IsZero_def)

theorem ExpiresAt_ValidateBasic_iff_witness:
  "0 \<le> sint (12 :: int64)
   \<and> ExpiresAt_ValidateBasic (ExpiresAtHeight 12) = None
   \<and> ExpiresAt_ValidateBasic (ExpiresAtTime 1700000000) = None
   \<and> ExpiresAt_ValidateBasic \<lparr>Time = 1700000000, Height = 12\<rparr> \<noteq> None
   \<and> ExpiresAt_ValidateBasic \<lparr>Time = 0, Height = - 1\<rparr> \<noteq> None"
  using ExpiresAt_ValidateBasic_iff [of "\<lparr>Time = 1700000000, Height = 12\<rparr>" 1700000000 12]
    ExpiresAt_ValidateBasic_iff [of "\<lparr>Time = 0, Height = - 1\<rparr>" 0 0]
  by (simp add: time_IsZero_def)

section \<open>Expiry\<close>

text \<open>
  C2. \<^verbatim>\<open>IsExpired\<close> holds exactly when the time field is set and the current time
  is at or after it, or the height is non-zero and the current step has reached it. The
  unset point is never expired. A time-point is expired at its own instant and not one
  nanosecond earlier; a step-point of height N is expired at step N and not at the step
  whose value is N - 1.
\<close>

theorem IsExpired_iff:
  "(IsExpired e t h \<longleftrightarrow>
      (\<not> time_IsZero (Time e) \<and> Time e \<le> t) \<or> (Height e \<noteq> 0 \<and> sint (Height e) \<le> sint h))
   \<and> (IsZero e \<longrightarrow> \<not> IsExpired e t h)
   \<and> (\<not> time_IsZero (Time e) \<longrightarrow> IsExpired e (Time e) h)
   \<and> (is_time_point e \<longrightarrow> \<not> IsExpired e (Time e - 1) h)
   \<and> (is_step_point e \<longrightarrow> IsExpired e t (Height e))
   \<and> (is_step_point e \<and> sint h = sint (Height e) - 1 \<longrightarrow> \<not> IsExpired e t h)"
  by (auto simp add: IsExpired_def IsZero_def is_time_point_def is_step_point_def
      time_Before_def)

theorem IsExpired_iff_witness:
  "is_time_point (ExpiresAtTime 100)
   \<and> IsExpired (ExpiresAtTime 100) 100 0
   \<and> \<not> IsExpired (ExpiresAtTime 100) 99 0
   \<and> is_step_point (ExpiresAtHeight 7)
   \<and> IsExpired (ExpiresAtHeight 7) 0 7
   \<and> sint (6 :: int64) = sint (Height (ExpiresAtHeight 7)) - 1
   \<and> \<not> IsExpired (ExpiresAtHeight 7) 0 6
   \<and> IsZero ExpiresAt_zero
   \<and> \<not> IsExpired ExpiresAt_zero 5 5"
  using IsExpired_iff [of "ExpiresAtTime 100" 100 0]
    IsExpired_iff [of "ExpiresAtHeight 7" 0 6]
    IsExpired_iff [of ExpiresAt_zero 5 5]
  by (simp add: is_time_point_def is_step_point_def IsZero_def ExpiresAtTime_def
      ExpiresAtHeight_def ExpiresAt_zero_def time_IsZero_def)

section \<open>Compatibility and stepping\<close>

text \<open>
  C3. \<^verbatim>\<open>Step\<close> returns the InvalidDuration error exactly when \<^verbatim>\<open>IsCompatible\<close> is
  false, and no error on a compatible pair. A time-point is compatible with exactly the
  durations whose clock span is positive, a step-point with exactly those whose step
  count is positive.
\<close>

theorem Step_error_iff:
  "(snd (Step e d) \<noteq> None \<longleftrightarrow> \<not> IsCompatible e d)
   \<and> (\<not> IsCompatible e d \<longrightarrow>
        Step e d = (ExpiresAt_zero,
          Some (ErrInvalidDuration ''expires_at and Duration have different units'')))
   \<and> (IsCompatible e d \<longrightarrow> snd (Step e d) = None)
   \<and> (is_time_point e \<longrightarrow> (IsCompatible e d \<longleftrightarrow> 0 < sint (Clock d)))
   \<and> (is_step_point e \<longrightarrow> (IsCompatible e d \<longleftrightarrow> 0 < sint (Block d)))"
  by (simp add: Step_def IsCompatible_def is_time_point_def is_step_point_def)

theorem Step_error_iff_witness:
  "is_time_point (ExpiresAtTime 100)
   \<and> IsCompatible (ExpiresAtTime 100) (ClockDuration 5)
   \<and> snd (Step (ExpiresAtTime 100) (ClockDuration 5)) = None
   \<and> is_step_point (ExpiresAtHeight 7)
   \<and> \<not> IsCompatible (ExpiresAtHeight 7) (ClockDuration 5)
   \<and> snd (Step (ExpiresAtHeight 7) (ClockDuration 5)) \<noteq> None"
  using Step_error_iff [of "ExpiresAtTime 100" "ClockDuration 5"]
    Step_error_iff [of "ExpiresAtHeight 7" "ClockDuration 5"]
  by (simp add: is_time_point_def is_step_point_def ExpiresAtTime_def ExpiresAtHeight_def
      ClockDuration_def time_IsZero_def)

text \<open>
  C9. On a compatible pair \<^verbatim>\<open>MustStep\<close> does not panic and returns the point that
  \<^verbatim>\<open>Step\<close> returns without error; on an incompatible pair it panics with the error
  of \<^verbatim>\<open>Step\<close> instead of returning it.
\<close>

theorem MustStep_compatible:
  "(IsCompatible e d \<longrightarrow> snd (Step e d) = None \<and> MustStep e d = Inr (fst (Step e d)))
   \<and> (\<not> IsCompatible e d \<longrightarrow>
        (\<exists>err. snd (Step e d) = Some err \<and> MustStep e d = Inl (Panic err)))"
  by (simp add: MustStep_def Step_def)

theorem MustStep_compatible_witness:
  "IsCompatible (ExpiresAtHeight 7) (BlockDuration 3)
   \<and> MustStep (ExpiresAtHeight 7) (BlockDuration 3) = Inr (ExpiresAtHeight 10)
   \<and> \<not> IsCompatible (ExpiresAtHeight 7) (ClockDuration 3)
   \<and> MustStep (ExpiresAtHeight 7) (ClockDuration 3) =
        Inl (Panic (ErrInvalidDuration ''expires_at and Duration have different units''))"
  using MustStep_compatible [of "ExpiresAtHeight 7" "BlockDuration 3"]
    MustStep_compatible [of "ExpiresAtHeight 7" "ClockDuration 3"]
  by (simp add: IsCompatible_def Step_def ExpiresAtHeight_def BlockDuration_def
      ClockDuration_def time_IsZero_def)




section \<open>Export and fast-forward\<close>




text \<open>
  C8, amended. On a point whose time field is set \<^verbatim>\<open>FastForward\<close> returns
  \<^verbatim>\<open>ExpiresAtTime(t)\<close>: time \<open>t\<close>, height zero, a time-point exactly when \<open>t\<close> is
  not the zero instant. On a step-point it returns \<^verbatim>\<open>ExpiresAtHeight(h)\<close>: height
  \<open>h\<close>, time zero, a step-point exactly when \<open>h\<close> is not zero. As stated for every
  reference time and step the claim fails at the zero instant and at step zero, where
  the result is the unset point.
\<close>

theorem FastForward_unit:
  "(\<not> time_IsZero (Time e) \<longrightarrow>
        FastForward e t h = ExpiresAtTime t
      \<and> Time (FastForward e t h) = t
      \<and> Height (FastForward e t h) = 0
      \<and> (is_time_point (FastForward e t h) \<longleftrightarrow> \<not> time_IsZero t)
      \<and> (IsZero (FastForward e t h) \<longleftrightarrow> time_IsZero t))
   \<and> (is_step_point e \<longrightarrow>
        FastForward e t h = ExpiresAtHeight h
      \<and> Height (FastForward e t h) = h
      \<and> time_IsZero (Time (FastForward e t h))
      \<and> (is_step_point (FastForward e t h) \<longleftrightarrow> h \<noteq> 0)
      \<and> (IsZero (FastForward e t h) \<longleftrightarrow> h = 0))"
  by (simp add: FastForward_def ExpiresAtTime_def ExpiresAtHeight_def is_time_point_def
      is_step_point_def IsZero_def time_IsZero_def)

theorem FastForward_unit_witness:
  "\<not> time_IsZero (Time (ExpiresAtTime 1600000000))
   \<and> FastForward (ExpiresAtTime 1600000000) 1700000000 42 = ExpiresAtTime 1700000000
   \<and> is_time_point (FastForward (ExpiresAtTime 1600000000) 1700000000 42)
   \<and> is_step_point (ExpiresAtHeight 7)
   \<and> FastForward (ExpiresAtHeight 7) 1700000000 42 = ExpiresAtHeight 42
   \<and> is_step_point (FastForward (ExpiresAtHeight 7) 1700000000 42)"
  using FastForward_unit [of "ExpiresAtTime 1600000000" 1700000000 42]
    FastForward_unit [of "ExpiresAtHeight 7" 1700000000 42]
  by (simp add: is_time_point_def is_step_point_def ExpiresAtHeight_def ExpiresAtTime_def
      time_IsZero_def)

theorem FastForward_unit_counterexample:
  "is_time_point (ExpiresAtTime 1600000000)
   \<and> \<not> is_time_point (FastForward (ExpiresAtTime 1600000000) 0 42)
   \<and> IsZero (FastForward (ExpiresAtTime 1600000000) 0 42)
   \<and> is_step_point (ExpiresAtHeight 7)
   \<and> \<not> is_step_point (FastForward (ExpiresAtHeight 7) 1700000000 0)
   \<and> IsZero (FastForward (ExpiresAtHeight 7) 1700000000 0)"
  by (simp add: is_time_point_def is_step_point_def IsZero_def FastForward_def
      ExpiresAtTime_def ExpiresAtHeight_def time_IsZero_def)

section \<open>The unset point\<close>

text \<open>
  C10, amended. The unset point is dispatched as step-based: it is compatible with
  exactly the durations of positive step count, \<^verbatim>\<open>Step\<close> with such a duration
  succeeds and returns a step-point whose height is that count, and \<^verbatim>\<open>FastForward\<close>
  returns \<^verbatim>\<open>ExpiresAtHeight(h)\<close>, a step-point exactly when \<open>h\<close> is not zero. As
  stated the claim fails at \<open>h = 0\<close>, where \<^verbatim>\<open>FastForward\<close> returns the unset point
  again.
\<close>

theorem unset_is_step_based:
  "IsZero e \<longrightarrow>
        (IsCompatible e d \<longleftrightarrow> 0 < sint (Block d))
      \<and> FastForward e t h = ExpiresAtHeight h
      \<and> (is_step_point (FastForward e t h) \<longleftrightarrow> h \<noteq> 0)
      \<and> (IsZero (FastForward e t h) \<longleftrightarrow> h = 0)
      \<and> (0 < sint (Block d) \<longrightarrow>
            snd (Step e d) = None
          \<and> is_step_point (fst (Step e d))
          \<and> Height (fst (Step e d)) = Block d)"
proof -
  have "Block d \<noteq> 0" if "0 < sint (Block d)"
    using that sint64_eq_0 [of "Block d"] by auto
  then show ?thesis
    by (simp add: IsZero_def IsCompatible_def FastForward_def ExpiresAtHeight_def
        is_step_point_def Step_def time_IsZero_def)
qed

theorem unset_is_step_based_witness:
  "IsZero ExpiresAt_zero
   \<and> 0 < sint (Block (BlockDuration 3))
   \<and> IsCompatible ExpiresAt_zero (BlockDuration 3)
   \<and> \<not> IsCompatible ExpiresAt_zero (ClockDuration 3)
   \<and> FastForward ExpiresAt_zero 1700000000 42 = ExpiresAtHeight 42
   \<and> is_step_point (FastForward ExpiresAt_zero 1700000000 42)
   \<and> snd (Step ExpiresAt_zero (BlockDuration 3)) = None
   \<and> is_step_point (fst (Step ExpiresAt_zero (BlockDuration 3)))
   \<and> Height (fst (Step ExpiresAt_zero (BlockDuration 3))) = 3"
  using unset_is_step_based [of ExpiresAt_zero "BlockDuration 3" 1700000000 42]
    unset_is_step_based [of ExpiresAt_zero "ClockDuration 3" 1700000000 42]
  by (simp add: IsZero_def is_step_point_def ExpiresAt_zero_def ExpiresAtHeight_def
      BlockDuration_def ClockDuration_def time_IsZero_def)

theorem unset_is_step_based_counterexample:
  "IsZero ExpiresAt_zero
   \<and> \<not> is_step_point (FastForward ExpiresAt_zero 1700000000 0)
   \<and> IsZero (FastForward ExpiresAt_zero 1700000000 0)"
  by (simp add: IsZero_def is_step_point_def FastForward_def ExpiresAt_zero_def
      ExpiresAtHeight_def time_IsZero_def)

section \<open>The data-model invariants\<close>

text \<open>
  C1, amended. From a point that satisfies both invariants, \<^verbatim>\<open>FastForward\<close> with a
  reference step that is not negative returns a point that satisfies both; \<^verbatim>\<open>Step\<close>
  and \<^verbatim>\<open>PrepareForExport\<close> always return a point with at most one field non-zero;
  \<^verbatim>\<open>Step\<close> with a duration that passes \<^verbatim>\<open>ValidateBasic\<close> returns a point that
  satisfies both exactly when height plus step count is at most \<open>2^63 - 1\<close>; and
  \<^verbatim>\<open>PrepareForExport\<close> with a dump step that is not negative returns a point that
  satisfies both exactly when the height is zero or the dump step does not exceed it. As
  stated the claim fails: exporting height 5 at dump step 10 gives height \<open>- 5\<close>, and
  stepping height \<open>2^63 - 1\<close> by one block gives height \<open>- 2^63\<close>.
\<close>

theorem operations_preserve_invariants:
  assumes "ExpiresAt_inv e"
  shows "(0 \<le> sint h \<longrightarrow> ExpiresAt_inv (FastForward e t h))
    \<and> at_most_one_set (fst (Step e d))
    \<and> (Duration_ValidateBasic d = None \<longrightarrow>
         (ExpiresAt_inv (fst (Step e d)) \<longleftrightarrow> sint (Height e) + sint (Block d) < 2 ^ 63))
    \<and> at_most_one_set (PrepareForExport e dt dh)
    \<and> (0 \<le> sint dh \<longrightarrow>
         (ExpiresAt_inv (PrepareForExport e dt dh) \<longleftrightarrow>
            Height e = 0 \<or> sint dh \<le> sint (Height e)))"
proof (intro conjI impI)
  show "ExpiresAt_inv (FastForward e t h)" if "0 \<le> sint h"
    using that by (rule FastForward_inv)
  show "at_most_one_set (fst (Step e d))"
    using assms by (intro Step_at_most_one_set) (simp add: ExpiresAt_inv_def)
  show "ExpiresAt_inv (fst (Step e d)) \<longleftrightarrow> sint (Height e) + sint (Block d) < 2 ^ 63"
    if "Duration_ValidateBasic d = None"
    using assms that by (rule Step_inv_iff)
  show "at_most_one_set (PrepareForExport e dt dh)"
    using assms by (rule PrepareForExport_at_most_one_set)
  show "ExpiresAt_inv (PrepareForExport e dt dh) \<longleftrightarrow>
          Height e = 0 \<or> sint dh \<le> sint (Height e)"
    if "0 \<le> sint dh"
    using assms that by (rule PrepareForExport_inv_iff)
qed

theorem operations_preserve_invariants_witness:
  "ExpiresAt_inv (ExpiresAtHeight 100)
   \<and> 0 \<le> sint (30 :: int64)
   \<and> Duration_ValidateBasic (BlockDuration 10) = None
   \<and> sint (Height (ExpiresAtHeight 100)) + sint (Block (BlockDuration 10)) < 2 ^ 63
   \<and> ExpiresAt_inv (FastForward (ExpiresAtHeight 100) 1700000000 30)
   \<and> ExpiresAt_inv (fst (Step (ExpiresAtHeight 100) (BlockDuration 10)))
   \<and> ExpiresAt_inv (PrepareForExport (ExpiresAtHeight 100) 1700000000 30)"
proof -
  have inv: "ExpiresAt_inv (ExpiresAtHeight 100)"
    by (simp add: ExpiresAt_inv_def at_most_one_set_def ExpiresAtHeight_def time_IsZero_def)
  have valid: "Duration_ValidateBasic (BlockDuration 10) = None"
    by (simp add: Duration_ValidateBasic_def BlockDuration_def)
  show ?thesis
    using inv valid
      operations_preserve_invariants [OF inv, of 30 1700000000 "BlockDuration 10" 1700000000 30]
    by (simp add: ExpiresAtHeight_def BlockDuration_def)
qed

theorem operations_preserve_invariants_counterexample:
  "ExpiresAt_inv (ExpiresAtHeight 5)
   \<and> 0 \<le> sint (10 :: int64)
   \<and> sint (Height (PrepareForExport (ExpiresAtHeight 5) 1700000000 10)) = - 5
   \<and> \<not> ExpiresAt_inv (PrepareForExport (ExpiresAtHeight 5) 1700000000 10)
   \<and> ExpiresAt_inv (ExpiresAtHeight 9223372036854775807)
   \<and> Duration_ValidateBasic (BlockDuration 1) = None
   \<and> snd (Step (ExpiresAtHeight 9223372036854775807) (BlockDuration 1)) = None
   \<and> sint (Height (fst (Step (ExpiresAtHeight 9223372036854775807) (BlockDuration 1))))
        = - 9223372036854775808
   \<and> \<not> ExpiresAt_inv (fst (Step (ExpiresAtHeight 9223372036854775807) (BlockDuration 1)))"
  by (simp add: ExpiresAt_inv_def at_most_one_set_def ExpiresAtHeight_def BlockDuration_def
      PrepareForExport_def Step_def IsCompatible_def Duration_ValidateBasic_def
      time_IsZero_def)

end
